theory Spec2Isabelle
  imports Complex_Main
begin

section \<open>Python strings\<close>

text \<open>
  A Python \<open>str\<close> is a sequence of code points. It is modelled as a \<open>string\<close> whose
  characters are the code points below 256 (Latin-1), the range in which every literal of
  the modelled source lies; \<open>length\<close> then counts what Python's \<open>len\<close> counts.
\<close>

definition isspace :: "char \<Rightarrow> bool" where
  \<comment> \<open>\<open>str.isspace\<close> on one code point below 256; also the class \<open>\s\<close> of \<open>re\<close>.\<close>
  "isspace c = ((of_char c :: nat) \<in> {9, 10, 11, 12, 13, 28, 29, 30, 31, 32, 133, 160})"

definition lstrip :: "string \<Rightarrow> string" where
  "lstrip s = dropWhile isspace s"

definition strip :: "string \<Rightarrow> string" where
  \<comment> \<open>\<open>s.strip()\<close>\<close>
  "strip s = rev (dropWhile isspace (rev (dropWhile isspace s)))"

fun split_ws_acc :: "string \<Rightarrow> string \<Rightarrow> string list" where
  "split_ws_acc [] w = (if w = [] then [] else [rev w])"
| "split_ws_acc (c # cs) w =
     (if isspace c then (if w = [] then split_ws_acc cs [] else rev w # split_ws_acc cs [])
      else split_ws_acc cs (c # w))"

definition split_ws :: "string \<Rightarrow> string list" where
  \<comment> \<open>\<open>s.split()\<close>: the maximal runs of non-whitespace\<close>
  "split_ws s = split_ws_acc s []"

fun split_on_acc :: "char \<Rightarrow> string \<Rightarrow> string \<Rightarrow> string list" where
  "split_on_acc d [] w = [rev w]"
| "split_on_acc d (c # cs) w =
     (if c = d then rev w # split_on_acc d cs [] else split_on_acc d cs (c # w))"

definition split_on :: "char \<Rightarrow> string \<Rightarrow> string list" where
  \<comment> \<open>\<open>s.split(d)\<close> for a one-character separator \<open>d\<close>\<close>
  "split_on d s = split_on_acc d s []"

definition lower_char :: "char \<Rightarrow> char" where
  "lower_char c =
     (let n = (of_char c :: nat)
      in if (65 \<le> n \<and> n \<le> 90) \<or> (192 \<le> n \<and> n \<le> 222 \<and> n \<noteq> 215)
         then char_of (n + 32) else c)"

definition lower :: "string \<Rightarrow> string" where
  \<comment> \<open>\<open>s.lower()\<close>\<close>
  "lower s = map lower_char s"

definition upper_char :: "char \<Rightarrow> string" where
  \<comment> \<open>Code point 223 becomes two letters. The upper-case forms of 181 and 255 lie
      above 255 and are no ASCII letters; they are kept as they are.\<close>
  "upper_char c =
     (let n = (of_char c :: nat)
      in if (97 \<le> n \<and> n \<le> 122) \<or> (224 \<le> n \<and> n \<le> 254 \<and> n \<noteq> 247)
         then [char_of (n - 32)]
         else if n = 223 then ''SS'' else [c])"

definition upper :: "string \<Rightarrow> string" where
  \<comment> \<open>\<open>s.upper()\<close>\<close>
  "upper s = concat (map upper_char s)"

fun startswith :: "string \<Rightarrow> string \<Rightarrow> bool" where
  \<comment> \<open>\<open>s.startswith(p)\<close>, written \<open>startswith p s\<close>\<close>
  "startswith [] s = True"
| "startswith (p # ps) [] = False"
| "startswith (p # ps) (c # cs) = (p = c \<and> startswith ps cs)"

fun str_in :: "string \<Rightarrow> string \<Rightarrow> bool" where
  \<comment> \<open>\<open>p in s\<close>\<close>
  "str_in p [] = (p = [])"
| "str_in p (c # cs) = (startswith p (c # cs) \<or> str_in p cs)"

definition word_count :: "string \<Rightarrow> nat" where
  \<comment> \<open>\<open>len(s.split())\<close>\<close>
  "word_count s = length (split_ws s)"

section \<open>Exceptions\<close>

datatype exn =
    ValidationError "(string \<times> string) list"
      \<comment> \<open>pydantic: the failing fields, each with the kind of its failure\<close>
  | TimeoutError
  | IndexError
  | ProviderError string
      \<comment> \<open>whatever an agent or LLM call raises, with its message\<close>

section \<open>src/core/legal\_models.py\<close>

datatype Status = PENDING | PROCESSING | REVIEWING | COMPLETED | FAILED | CANCELLED

subsection \<open>RetryableError\<close>

record RetryableError =
  error_type :: string
  message :: string
  retry_count :: int
  max_retries :: int
  backoff_factor :: rat

definition RetryableError_new ::
  "string \<Rightarrow> string \<Rightarrow> int option \<Rightarrow> int option \<Rightarrow> rat option \<Rightarrow> exn + RetryableError" where
  \<comment> \<open>The constructor: a keyword left out is \<open>None\<close> and takes the field's default;
      \<open>ge\<close> bounds are checked field by field.\<close>
  "RetryableError_new et msg rc mr bf =
     (let rc' = (case rc of None \<Rightarrow> 0 | Some v \<Rightarrow> v);
          mr' = (case mr of None \<Rightarrow> 3 | Some v \<Rightarrow> v);
          bf' = (case bf of None \<Rightarrow> 1 | Some v \<Rightarrow> v);
          errs = (if rc' < 0 then [(''retry_count'', ''greater_than_equal'')] else [])
               @ (if mr' < 1 then [(''max_retries'', ''greater_than_equal'')] else [])
               @ (if bf' < 0 then [(''backoff_factor'', ''greater_than_equal'')] else [])
      in if errs = [] then
           Inr \<lparr>error_type = et, message = msg, retry_count = rc', max_retries = mr',
                backoff_factor = bf'\<rparr>
         else Inl (ValidationError errs))"

definition can_retry :: "RetryableError \<Rightarrow> bool" where
  "can_retry self = (retry_count self < max_retries self)"

datatype RetryableError_field = F_error_type | F_message | F_retry_count | F_max_retries | F_backoff_factor

definition field_name :: "RetryableError_field \<Rightarrow> string" where
  "field_name f = (case f of F_error_type \<Rightarrow> ''error_type'' | F_message \<Rightarrow> ''message''
     | F_retry_count \<Rightarrow> ''retry_count'' | F_max_retries \<Rightarrow> ''max_retries''
     | F_backoff_factor \<Rightarrow> ''backoff_factor'')"

definition RetryableError_setattr ::
  "RetryableError \<Rightarrow> RetryableError_field \<Rightarrow> 'v \<Rightarrow> exn + RetryableError" where
  \<comment> \<open>\<open>self.f = v\<close> under \<open>ConfigDict(frozen=True)\<close>: pydantic refuses every
      assignment to a field, whatever the value.\<close>
  "RetryableError_setattr self f v = Inl (ValidationError [(field_name f, ''frozen_instance'')])"

section \<open>src/core/workflow\_builder.py: routing\<close>

definition NODE_RETRIEVE :: string where "NODE_RETRIEVE = ''retrieve_documents''"
definition NODE_GRADE :: string where "NODE_GRADE = ''grade_documents''"
definition NODE_TRANSFORM :: string where "NODE_TRANSFORM = ''transform_query''"
definition NODE_LEXML :: string where "NODE_LEXML = ''lexml_search''"
definition NODE_EVALUATE :: string where "NODE_EVALUATE = ''evaluate_search_necessity''"
definition NODE_WEB_SEARCH :: string where "NODE_WEB_SEARCH = ''conditional_web_search''"
definition NODE_SYNTHESIZE :: string where "NODE_SYNTHESIZE = ''synthesize_response''"
definition NODE_ERROR :: string where "NODE_ERROR = ''error_handler''"
definition END :: string where "END = ''__end__''"

section \<open>src/core/workflow\_state.py: the run state\<close>

text \<open>
  \<open>AgentState\<close> is a \<open>TypedDict\<close> whose keys may be absent, and whose values may be
  \<open>None\<close>. A slot tells the three cases apart; only the keys read by the modelled
  nodes are kept.
\<close>

datatype 'a slot = Missing | Null | Value 'a

definition get :: "'a slot \<Rightarrow> 'a option" where
  \<comment> \<open>\<open>state.get(key)\<close>\<close>
  "get x = (case x of Value v \<Rightarrow> Some v | _ \<Rightarrow> None)"

definition get_default :: "'a slot \<Rightarrow> 'a \<Rightarrow> 'a option" where
  \<comment> \<open>\<open>state.get(key, default)\<close>: the default stands in for an absent key only\<close>
  "get_default x d = (case x of Missing \<Rightarrow> Some d | Null \<Rightarrow> None | Value v \<Rightarrow> Some v)"

record LegalQuery =
  LegalQuery_id :: string
  LegalQuery_text :: string

record DocumentSnippet =
  source_id :: string
  snippet_text :: string
  authority :: "string option"

record AgentState =
  query :: "LegalQuery slot"
  retrieved_docs :: "DocumentSnippet list slot"
  grade :: "string slot"
  needs_web_search :: "bool slot"
  error :: "string slot"

section \<open>src/core/workflow\_builder.py: routing, continued\<close>

definition route_after_grading :: "AgentState \<Rightarrow> string" where
  "route_after_grading state =
     (let g = get (grade state)
      in if g = Some ''relevant'' then NODE_LEXML
         else if g = Some ''irrelevant'' then NODE_TRANSFORM
         else NODE_LEXML)"

definition route_after_transform :: "AgentState \<Rightarrow> string" where
  "route_after_transform state = NODE_LEXML"

definition route_after_evaluation :: "AgentState \<Rightarrow> string" where
  "route_after_evaluation state =
     (let needs_web = get_default (needs_web_search state) False
      in if needs_web = Some True then NODE_WEB_SEARCH else NODE_SYNTHESIZE)"

definition conditional_edge :: "(AgentState \<Rightarrow> string) \<Rightarrow> (string \<times> string) list \<Rightarrow> AgentState \<Rightarrow> string option" where
  \<comment> \<open>\<open>add_conditional_edges(node, router, path_map)\<close>: the router's answer is looked up
      in the path map; an answer outside the map is an error of the graph (\<open>None\<close>).\<close>
  "conditional_edge router path_map state = map_of path_map (router state)"

definition build_graph :: "string \<Rightarrow> AgentState \<Rightarrow> string option" where
  \<comment> \<open>The compiled graph as its successor function: the node that runs after a node
      has returned, \<open>END\<close> after the last one.\<close>
  "build_graph node state =
     (if node = NODE_RETRIEVE then Some NODE_GRADE
      else if node = NODE_GRADE then
        conditional_edge route_after_grading
          [(NODE_LEXML, NODE_LEXML), (NODE_TRANSFORM, NODE_TRANSFORM)] state
      else if node = NODE_TRANSFORM then
        conditional_edge route_after_transform [(NODE_LEXML, NODE_LEXML)] state
      else if node = NODE_LEXML then Some NODE_EVALUATE
      else if node = NODE_EVALUATE then
        conditional_edge route_after_evaluation
          [(NODE_WEB_SEARCH, NODE_WEB_SEARCH), (NODE_SYNTHESIZE, NODE_SYNTHESIZE)] state
      else if node = NODE_WEB_SEARCH then Some NODE_SYNTHESIZE
      else if node = NODE_SYNTHESIZE then Some END
      else if node = NODE_ERROR then Some END
      else None)"

section \<open>src/agents/document\_grader.py\<close>

function str_of_nat :: "nat \<Rightarrow> string" where
  \<comment> \<open>\<open>str(n)\<close> as an f-string prints an integer\<close>
  "str_of_nat n =
     (if n < 10 then [char_of (48 + n)]
      else str_of_nat (n div 10) @ [char_of (48 + n mod 10)])"
  by pat_completeness auto
termination
  by (relation "measure (\<lambda>n. n)") auto

fun join :: "string \<Rightarrow> string list \<Rightarrow> string" where
  \<comment> \<open>\<open>sep.join(xs)\<close>\<close>
  "join sep [] = []"
| "join sep [x] = x"
| "join sep (x # y # ys) = x @ sep @ join sep (y # ys)"

definition format_doc :: "nat \<Rightarrow> DocumentSnippet \<Rightarrow> string" where
  \<comment> \<open>One turn of the loop of \<open>format_docs_for_grading\<close>, at index \<open>i\<close>.\<close>
  "format_doc i doc =
     (let source = (case authority doc of
                      None \<Rightarrow> source_id doc
                    | Some a \<Rightarrow> if a = [] then source_id doc else a);
          text_content = take 500 (snippet_text doc)
      in ''Documento '' @ str_of_nat (i + 1) @ '' (Fonte: '' @ source @ ''):'' @ [CHR 0x0A]
         @ text_content @ ''...'')"

definition format_docs_for_grading :: "DocumentSnippet list \<Rightarrow> string" where
  "format_docs_for_grading docs =
     (if docs = [] then ''Nenhum documento recuperado.''
      else join ([CHR 0x0A] @ ''---'' @ [CHR 0x0A])
             (map (\<lambda>(i, doc). format_doc i doc) (enumerate 0 docs)))"

fun startswith_ci :: "string \<Rightarrow> string \<Rightarrow> bool" where
  \<comment> \<open>a literal of a pattern under \<open>re.IGNORECASE\<close>, matched at the head of a text\<close>
  "startswith_ci [] s = True"
| "startswith_ci (p # ps) [] = False"
| "startswith_ci (p # ps) (c # cs) = (lower_char p = lower_char c \<and> startswith_ci ps cs)"

definition match_relevancia :: "string \<Rightarrow> string option" where
  \<comment> \<open>The pattern \<open>RELEVANCIA:\s*(relevant|irrelevant|needs_web_search)\<close> matched at the
      head of a text; the answer is \<open>group(1).lower()\<close>. No alternative starts with
      whitespace, so \<open>\s*\<close> takes all the whitespace there is.\<close>
  "match_relevancia s =
     (if startswith_ci ''RELEVANCIA:'' s then
        (let r = dropWhile isspace (drop 11 s)
         in if startswith_ci ''relevant'' r then Some ''relevant''
            else if startswith_ci ''irrelevant'' r then Some ''irrelevant''
            else if startswith_ci ''needs_web_search'' r then Some ''needs_web_search''
            else None)
      else None)"

fun search_relevancia :: "string \<Rightarrow> string option" where
  \<comment> \<open>\<open>re.search\<close>: the leftmost position at which the pattern matches\<close>
  "search_relevancia [] = None"
| "search_relevancia (c # cs) =
     (case match_relevancia (c # cs) of Some g \<Rightarrow> Some g | None \<Rightarrow> search_relevancia cs)"

definition parse_grader_response :: "string \<Rightarrow> string" where
  "parse_grader_response txt =
     (case search_relevancia txt of
        Some g \<Rightarrow> g
      | None \<Rightarrow>
          (let text_lower = lower txt
           in if str_in ''irrelevant'' text_lower then ''irrelevant''
              else if str_in ''needs_web_search'' text_lower then ''needs_web_search''
              else ''relevant''))"

definition grader_input :: "string \<Rightarrow> string \<Rightarrow> string" where
  \<comment> \<open>\<open>agent_input_content\<close>\<close>
  "grader_input query_text formatted_docs =
     ''Pergunta do Usu'' @ [CHR 0xE1] @ ''rio: '' @ query_text @ [CHR 0x0A, CHR 0x0A]
     @ ''Documentos Recuperados:'' @ [CHR 0x0A] @ formatted_docs @ [CHR 0x0A, CHR 0x0A]
     @ ''Avalie a relev'' @ [CHR 0xE2] @ ''ncia destes documentos para a pergunta e responda no formato JSON solicitado.''"

text \<open>One awaited \<open>agent.run(prompt)\<close>: the output text, or the exception raised.\<close>

type_synonym agent = "string \<Rightarrow> exn + string"

definition grade_documents :: "agent option \<Rightarrow> AgentState \<Rightarrow> string \<times> string list" where
  \<comment> \<open>\<open>grader_agent\<close> is \<open>None\<close> when its construction failed at import. The result is
      the \<open>grade\<close> of the returned dict, with the prompts sent to the agent.\<close>
  "grade_documents grader_agent state =
     (case grader_agent of
        None \<Rightarrow> (''relevant'', [])
      | Some agent \<Rightarrow>
          (case (get (query state), get (retrieved_docs state)) of
             (Some q, Some docs) \<Rightarrow>
               if docs = [] then (''irrelevant'', [])
               else
                 (let agent_input_content = grader_input (LegalQuery_text q) (format_docs_for_grading docs)
                  in case agent agent_input_content of
                       Inr grader_text \<Rightarrow> (parse_grader_response grader_text, [agent_input_content])
                     | Inl e \<Rightarrow> (''relevant'', [agent_input_content]))
           | _ \<Rightarrow> (''irrelevant'', [])))"

section \<open>Texts of the source\<close>

text \<open>
  The literals and f-strings of the modelled functions, each under the name of the
  place that uses it.
\<close>

definition default_disclaimer :: "string" where
  \<comment> \<open>the default of the field \<open>disclaimer\<close>\<close>
  "default_disclaimer =
     ''Esta informa'' @ [CHR 0xE7, CHR 0xE3] @ ''o '' @ [CHR 0xE9] @ '' gerada por IA e n'' @
     [CHR 0xE3] @ ''o substitui assessoria jur'' @ [CHR 0xED] @
     ''dica profissional. Busque sempre orienta'' @ [CHR 0xE7, CHR 0xE3] @
     ''o de advogado especializado para sua situa'' @ [CHR 0xE7, CHR 0xE3] @ ''o espec'' @
     [CHR 0xED] @ ''fica.''"

definition msg_two_sentences :: "string" where
  "msg_two_sentences =
     ''Resposta deve conter pelo menos 2 frases completas''"

definition msg_too_short :: "string" where
  "msg_too_short =
     ''Resposta muito curta - m'' @ [CHR 0xED] @ ''nimo 50 caracteres''"

definition msg_repetitive :: "string" where
  "msg_repetitive =
     ''Resposta muito repetitiva''"

definition no_query_summary :: "string" where
  "no_query_summary =
     ''Erro interno: Query original n'' @ [CHR 0xE3] @ ''o encontrada. O sistema n'' @ [CHR 0xE3] @
     ''o conseguiu processar adequadamente a consulta jur'' @ [CHR 0xED] @
     ''dica solicitada. Este erro indica um problema t'' @ [CHR 0xE9] @
     ''cnico que deve ser reportado ao suporte para investiga'' @ [CHR 0xE7, CHR 0xE3] @
     ''o e corre'' @ [CHR 0xE7, CHR 0xE3] @ ''o.''"

definition no_query_disclaimer :: "string" where
  "no_query_disclaimer =
     ''Este '' @ [CHR 0xE9] @ '' um erro t'' @ [CHR 0xE9] @ ''cnico do sistema. Para orienta'' @
     [CHR 0xE7, CHR 0xE3] @ ''o jur'' @ [CHR 0xED] @
     ''dica, consulte um advogado especializado.''"

definition no_query_error :: "string" where
  "no_query_error =
     ''Query n'' @ [CHR 0xE3] @ ''o encontrada''"

definition emergency_summary :: "string" where
  "emergency_summary =
     ''O sistema encontrou dificuldades t'' @ [CHR 0xE9] @
     ''cnicas ao processar sua consulta jur'' @ [CHR 0xED] @
     ''dica. Este erro pode estar relacionado '' @ [CHR 0xE0] @
     '' complexidade da consulta ou a problemas tempor'' @ [CHR 0xE1] @
     ''rios de conectividade com os servi'' @ [CHR 0xE7] @
     ''os de IA. Tente reformular sua pergunta de forma mais '' @ ''espec'' @ [CHR 0xED] @
     ''fica ou tente novamente em alguns minutos. Para orienta'' @ [CHR 0xE7, CHR 0xE3] @
     ''o jur'' @ [CHR 0xED] @ ''dica imediata, consulte um advogado especializado.''"

definition emergency_disclaimer :: "string" where
  "emergency_disclaimer =
     ''Resposta de erro t'' @ [CHR 0xE9] @ ''cnico. Este sistema utiliza IA para assist'' @
     [CHR 0xEA] @ ''ncia jur'' @ [CHR 0xED] @ ''dica, mas n'' @ [CHR 0xE3] @
     ''o substitui consulta profissional com advogado especializado.''"

definition hybrid_disclaimer :: "string" where
  "hybrid_disclaimer =
     ''Esta resposta foi gerada por sistema de IA integrado '' @ ''e est'' @ [CHR 0xE1] @
     '' suscet'' @ [CHR 0xED] @ ''vel a erro. Para qualquer conclus'' @ [CHR 0xE3] @
     ''o e tomada de descis'' @ [CHR 0xE3] @ ''o procure um advogado credenciado e qualificado.''"

definition hybrid_failed_summary :: "string" where
  "hybrid_failed_summary =
     ''Desculpe, ocorreu um erro no sistema h'' @ [CHR 0xED] @
     ''brido durante o processamento da sua consulta jur'' @ [CHR 0xED] @
     ''dica. O sistema OpenRouter + Groq encontrou dificuldades '' @ ''t'' @ [CHR 0xE9] @
     ''cnicas que impediram a conclus'' @ [CHR 0xE3] @ ''o da an'' @ [CHR 0xE1] @
     ''lise. Este tipo de erro pode ser tempor'' @ [CHR 0xE1] @
     ''rio e recomendamos tentar novamente em alguns minutos. '' @
     ''Se o problema persistir, entre em contato com o suporte '' @ ''t'' @ [CHR 0xE9] @
     ''cnico para assist'' @ [CHR 0xEA] @ ''ncia especializada.''"

definition hybrid_failed_warning :: "string" where
  "hybrid_failed_warning =
     ''Falha no sistema h'' @ [CHR 0xED] @ ''brido OpenRouter + Groq''"

definition hybrid_failed_disclaimer :: "string" where
  "hybrid_failed_disclaimer =
     ''Sistema indispon'' @ [CHR 0xED] @ ''vel. Tente novamente mais tarde.''"

definition guardrail_warning :: "string \<Rightarrow> string" where
  "guardrail_warning violation =
     ''Aten'' @ [CHR 0xE7, CHR 0xE3] @ ''o: '' @ violation"

definition default_review_reason :: "string" where
  "default_review_reason =
     ''Avalia'' @ [CHR 0xE7, CHR 0xE3] @ ''o autom'' @ [CHR 0xE1] @ ''tica conclu'' @ [CHR 0xED] @
     ''da''"

definition failed_validation_suggestion :: "string" where
  "failed_validation_suggestion =
     ''Valida'' @ [CHR 0xE7, CHR 0xE3] @ ''o autom'' @ [CHR 0xE1] @ ''tica falhou - revis'' @
     [CHR 0xE3] @ ''o recomendada''"

definition failed_validation_reason :: "string" where
  "failed_validation_reason =
     ''Erro no sistema de valida'' @ [CHR 0xE7, CHR 0xE3] @ ''o''"

definition guardrail_failure :: "string \<Rightarrow> string" where
  "guardrail_failure msg =
     ''Sistema de guardrails falhou: '' @ msg"

definition error_summary :: "string \<Rightarrow> string" where
  "error_summary error_message =
     ''Desculpe, ocorreu um erro: '' @ error_message"

section \<open>src/core/legal\_models.py: FinalResponse\<close>

text \<open>
  A Python \<open>float\<close> is a finite double, an infinity or a NaN. A finite double is
  modelled by the rational it denotes, and a decimal literal of the source by its decimal
  value; the bounds of the models compare with 0 and 1 only, which are doubles.
\<close>

datatype pyfloat = Finite rat | PosInf | NegInf | NaN

definition check_unit :: "string \<Rightarrow> pyfloat \<Rightarrow> (string \<times> string) list" where
  \<comment> \<open>\<open>Field(ge=0, le=1)\<close> on a float: no comparison holds of a NaN\<close>
  "check_unit name x =
     (case x of
        Finite r \<Rightarrow> if r < 0 then [(name, ''greater_than_equal'')]
                    else if 1 < r then [(name, ''less_than_equal'')] else []
      | PosInf \<Rightarrow> [(name, ''less_than_equal'')]
      | NegInf \<Rightarrow> [(name, ''greater_than_equal'')]
      | NaN \<Rightarrow> [(name, ''greater_than_equal'')])"

definition sentences :: "string \<Rightarrow> string list" where
  \<comment> \<open>\<open>[s.strip() for s in v.split('.') if s.strip()]\<close>\<close>
  "sentences v = filter (\<lambda>s. s \<noteq> []) (map strip (split_on CHR ''.'' v))"

definition validate_summary_quality :: "string \<Rightarrow> string + string" where
  \<comment> \<open>\<open>Inl\<close> is the \<open>ValueError\<close> with its message. The quotient of the two lengths
      is compared as a rational: the lengths are far below the precision of a double.\<close>
  "validate_summary_quality v =
     (if length (sentences v) < 2 then Inl msg_two_sentences
      else if length (strip v) < 50 then Inl msg_too_short
      else
        (let words = split_ws (lower v)
         in if length words < 10 then Inr v
            else
              (let unique_words = set words
               in if (of_nat (card unique_words) :: rat) / of_nat (length words) < 1 / 4
                  then Inl msg_repetitive
                  else Inr v)))"

text \<open>
  The fields of \<open>FinalResponse\<close> that the modelled callers set or read. The identifier
  and the timestamps come from default factories (\<open>uuid4\<close>, \<open>datetime.now\<close>) and
  the two lists \<open>detailed_analyses\<close> and \<open>search_results\<close> are left empty by every
  modelled caller; none of them is validated, and they are left out.
\<close>

record FinalResponse =
  query_id :: string
  overall_summary :: string
  overall_confidence :: pyfloat
  completeness_score :: pyfloat
  disclaimer :: string
  warnings :: "string list"
  status :: Status

text \<open>The keyword arguments of a call of the constructor: \<open>None\<close> for one left out.\<close>

record FinalResponse_kwargs =
  kw_query_id :: "string option"
  kw_overall_summary :: "string option"
  kw_overall_confidence :: "pyfloat option"
  kw_completeness_score :: "pyfloat option"
  kw_disclaimer :: "string option"
  kw_warnings :: "string list option"
  kw_status :: "Status option"

definition no_kwargs :: FinalResponse_kwargs where
  "no_kwargs = \<lparr>kw_query_id = None, kw_overall_summary = None, kw_overall_confidence = None,
                kw_completeness_score = None, kw_disclaimer = None, kw_warnings = None,
                kw_status = None\<rparr>"

definition check_overall_summary :: "string option \<Rightarrow> (string \<times> string) list" where
  \<comment> \<open>\<open>min_length=100\<close>, \<open>max_length=15000\<close>, then the validator of the field\<close>
  "check_overall_summary arg =
     (case arg of
        None \<Rightarrow> [(''overall_summary'', ''missing'')]
      | Some v \<Rightarrow>
          if length v < 100 then [(''overall_summary'', ''string_too_short'')]
          else if 15000 < length v then [(''overall_summary'', ''string_too_long'')]
          else (case validate_summary_quality v of
                  Inl m \<Rightarrow> [(''overall_summary'', ''value_error'')]
                | Inr v' \<Rightarrow> []))"

definition FinalResponse_new :: "FinalResponse_kwargs \<Rightarrow> exn + FinalResponse" where
  \<comment> \<open>\<open>FinalResponse(**kw)\<close>: pydantic reports the failures of all fields, in the order
      of the fields; a keyword that names no field is ignored.\<close>
  "FinalResponse_new kw =
     (let errs =
            (case kw_query_id kw of None \<Rightarrow> [(''query_id'', ''missing'')] | Some i \<Rightarrow> [])
          @ check_overall_summary (kw_overall_summary kw)
          @ (case kw_overall_confidence kw of
               None \<Rightarrow> [] | Some x \<Rightarrow> check_unit ''overall_confidence'' x)
          @ (case kw_completeness_score kw of
               None \<Rightarrow> [] | Some x \<Rightarrow> check_unit ''completeness_score'' x)
      in case (kw_query_id kw, kw_overall_summary kw) of
           (Some i, Some v) \<Rightarrow>
             if errs = [] then
               Inr \<lparr>query_id = i,
                    overall_summary = v,
                    overall_confidence =
                      (case kw_overall_confidence kw of None \<Rightarrow> Finite 0 | Some x \<Rightarrow> x),
                    completeness_score =
                      (case kw_completeness_score kw of None \<Rightarrow> Finite 0 | Some x \<Rightarrow> x),
                    disclaimer =
                      (case kw_disclaimer kw of None \<Rightarrow> default_disclaimer | Some d \<Rightarrow> d),
                    warnings = (case kw_warnings kw of None \<Rightarrow> [] | Some w \<Rightarrow> w),
                    status = (case kw_status kw of None \<Rightarrow> COMPLETED | Some s \<Rightarrow> s)\<rparr>
             else Inl (ValidationError errs)
         | _ \<Rightarrow> Inl (ValidationError errs))"

section \<open>src/core/workflow\_builder.py: the error handler\<close>

definition handle_error :: "AgentState \<Rightarrow> exn + FinalResponse" where
  \<comment> \<open>The result stands for the returned dict \<open>{"final_response": ...}\<close>. The call of
      the constructor passes \<open>overall_summary\<close> and two keywords that name no field
      (\<open>retrieved_documents\<close>, \<open>detailed_analysis\<close>).\<close>
  "handle_error state =
     (let error_message =
            (case get_default (error state) ''Unknown error'' of
               None \<Rightarrow> ''None'' | Some m \<Rightarrow> m)
      in FinalResponse_new (no_kwargs\<lparr>kw_overall_summary := Some (error_summary error_message)\<rparr>))"

section \<open>src/agents/streaming/response\_synthesizer.py\<close>

record SimpleFinalResponse =
  simple_overall_summary :: string
  simple_disclaimer :: string

text \<open>
  The entry \<open>error\<close> of the returned dict is a text: a literal, or \<open>str(e)\<close> of the
  exception caught, which is kept as the exception.
\<close>

datatype error_entry = ErrorText string | ErrorOf exn

record synthesis_update =
  update_error :: "error_entry option"
  update_final_response :: FinalResponse

definition synthesize_response ::
  "(exn + SimpleFinalResponse) \<Rightarrow> AgentState \<Rightarrow> exn + synthesis_update" where
  \<comment> \<open>\<open>hybrid\<close> is what awaiting \<open>synthesize_with_hybrid_corrected_approach\<close> gives: its
      answer, or the exception it raises. The formatting of the documents before the
      \<open>try\<close> only feeds that call.\<close>
  "synthesize_response hybrid state =
     (case get (query state) of
        None \<Rightarrow>
          (case FinalResponse_new
                  (no_kwargs\<lparr>kw_query_id := Some ''unknown'',
                             kw_overall_summary := Some no_query_summary,
                             kw_disclaimer := Some no_query_disclaimer\<rparr>) of
             Inl e \<Rightarrow> Inl e
           | Inr error_response \<Rightarrow>
               Inr \<lparr>update_error = Some (ErrorText no_query_error),
                    update_final_response = error_response\<rparr>)
      | Some query_object \<Rightarrow>
          (case (case hybrid of
                   Inl e \<Rightarrow> Inl e
                 | Inr llm_response \<Rightarrow>
                     FinalResponse_new
                       (no_kwargs\<lparr>kw_query_id := Some (LegalQuery_id query_object),
                                  kw_overall_summary := Some (simple_overall_summary llm_response),
                                  kw_disclaimer := Some (simple_disclaimer llm_response)\<rparr>)) of
             Inr final_response \<Rightarrow>
               Inr \<lparr>update_error = None, update_final_response = final_response\<rparr>
           | Inl e \<Rightarrow>
               (case FinalResponse_new
                       (no_kwargs\<lparr>kw_query_id := Some (LegalQuery_id query_object),
                                  kw_overall_summary := Some emergency_summary,
                                  kw_disclaimer := Some emergency_disclaimer\<rparr>) of
                  Inl e' \<Rightarrow> Inl e'
                | Inr emergency_response \<Rightarrow>
                    Inr \<lparr>update_error = Some (ErrorOf e),
                         update_final_response = emergency_response\<rparr>)))"

section \<open>Example inputs\<close>

definition st0 :: AgentState where
  \<comment> \<open>the state with no key set\<close>
  "st0 = \<lparr>query = Missing, retrieved_docs = Missing, grade = Missing,
          needs_web_search = Missing, error = Missing\<rparr>"

definition q1 :: LegalQuery where
  "q1 = \<lparr>LegalQuery_id = ''q1'', LegalQuery_text = ''Quais as regras?''\<rparr>"

definition repetitive_summary :: string where
  \<comment> \<open>one word and a full stop, nine times\<close>
  "repetitive_summary = concat (replicate 9 ''aaaaaaaaaaa. '')"

definition repetitive_kwargs :: FinalResponse_kwargs where
  "repetitive_kwargs =
     no_kwargs\<lparr>kw_query_id := Some ''q1'', kw_overall_summary := Some repetitive_summary\<rparr>"

definition varied_summary :: string where
  "varied_summary =
     ''O contrato social define as quotas de cada socio. A cessao de quotas '' @
     ''depende da anuencia dos demais socios, salvo clausula em contrario.''"

definition varied_kwargs :: FinalResponse_kwargs where
  "varied_kwargs =
     no_kwargs\<lparr>kw_query_id := Some ''q1'', kw_overall_summary := Some varied_summary\<rparr>"

definition three_words_kwargs :: FinalResponse_kwargs where
  "three_words_kwargs =
     no_kwargs\<lparr>kw_query_id := Some ''q1'', kw_overall_summary := Some ''Contrato parece valido.''\<rparr>"

definition varied_response :: FinalResponse where
  "varied_response =
     \<lparr>query_id = ''q1'', overall_summary = varied_summary, overall_confidence = Finite 0,
      completeness_score = Finite 0, disclaimer = default_disclaimer, warnings = [],
      status = COMPLETED\<rparr>"

definition repetitive_response :: FinalResponse where
  "repetitive_response =
     \<lparr>query_id = ''q1'', overall_summary = repetitive_summary, overall_confidence = Finite 0,
      completeness_score = Finite 0, disclaimer = default_disclaimer, warnings = [],
      status = COMPLETED\<rparr>"

section \<open>Properties\<close>

lemmas NODE_defs = NODE_RETRIEVE_def NODE_GRADE_def NODE_TRANSFORM_def NODE_LEXML_def
  NODE_EVALUATE_def NODE_WEB_SEARCH_def NODE_SYNTHESIZE_def NODE_ERROR_def END_def

subsection \<open>The error handler and the synthesis node\<close>

lemma no_query_summary_valid: "check_overall_summary (Some no_query_summary) = []"
  by code_simp

lemma emergency_summary_valid: "check_overall_summary (Some emergency_summary) = []"
  by code_simp

text \<open>
  The synthesis node always returns an update with a final response, raising nothing:
  with no query in the state, when the hybrid synthesis raises, and when the
  constructor refuses the summary of the hybrid synthesis. In the last two cases the
  response is the emergency response and the exception is reported under \<open>error\<close>.
\<close>

lemma synthesize_response_returns:
  "\<exists>u. synthesize_response hybrid s = Inr u"
  by (auto simp: synthesize_response_def FinalResponse_new_def no_kwargs_def Let_def
      no_query_summary_valid emergency_summary_valid split: option.splits sum.splits)

lemma synthesize_response_emergency:
  "get (query s) = Some q \<Longrightarrow>
   synthesize_response (Inl e) s =
     Inr \<lparr>update_error = Some (ErrorOf e),
          update_final_response =
            \<lparr>query_id = LegalQuery_id q, overall_summary = emergency_summary,
             overall_confidence = Finite 0, completeness_score = Finite 0,
             disclaimer = emergency_disclaimer, warnings = [], status = COMPLETED\<rparr>\<rparr>"
  by (simp add: synthesize_response_def FinalResponse_new_def no_kwargs_def Let_def
      emergency_summary_valid)

text \<open>
  Claim C1 fails in the error handler. \<open>handle_error\<close> calls the constructor of
  \<open>FinalResponse\<close> without the required \<open>query_id\<close>, so the constructor raises a
  validation error for every state and the handler returns no response: for the state
  whose \<open>error\<close> is \<open>boom\<close> the report names the missing \<open>query_id\<close> and the
  summary, which is also below the minimum length.
\<close>

theorem handle_error_raises:
  "isl (handle_error s)
   \<and> handle_error (st0\<lparr>error := Value ''boom''\<rparr>)
       = Inl (ValidationError [(''query_id'', ''missing''),
                               (''overall_summary'', ''string_too_short'')])"
  by (simp add: handle_error_def FinalResponse_new_def no_kwargs_def Let_def st0_def
      get_default_def check_overall_summary_def error_summary_def)

subsection \<open>Routing after grading\<close>

text \<open>
  Claim C2. The router after the grading sends the grade \<open>irrelevant\<close> to the
  transformation of the query and every other state to the LexML search: the grade
  \<open>relevant\<close>, \<open>needs_web_search\<close>, \<open>None\<close>, an absent grade or any other text.
  The compiled graph follows the router at the grading node (the answer of the router
  is always in the path map), and goes from the transformation to the LexML search.
\<close>

theorem route_after_grading_table:
  "route_after_grading s =
     (if get (grade s) = Some ''irrelevant'' then NODE_TRANSFORM else NODE_LEXML)
   \<and> build_graph NODE_GRADE s = Some (route_after_grading s)
   \<and> build_graph NODE_TRANSFORM s = Some NODE_LEXML"
  by (simp add: route_after_grading_def route_after_transform_def build_graph_def
      conditional_edge_def NODE_defs Let_def)

theorem route_after_grading_table_witness:
  "build_graph NODE_GRADE (st0\<lparr>grade := Value ''relevant''\<rparr>) = Some NODE_LEXML
   \<and> build_graph NODE_GRADE (st0\<lparr>grade := Value ''irrelevant''\<rparr>) = Some NODE_TRANSFORM
   \<and> build_graph NODE_TRANSFORM (st0\<lparr>grade := Value ''irrelevant''\<rparr>) = Some NODE_LEXML
   \<and> build_graph NODE_GRADE (st0\<lparr>grade := Value ''needs_web_search''\<rparr>) = Some NODE_LEXML
   \<and> build_graph NODE_GRADE (st0\<lparr>grade := Null\<rparr>) = Some NODE_LEXML
   \<and> build_graph NODE_GRADE (st0\<lparr>grade := Value ''RELEVANCIA: ?''\<rparr>) = Some NODE_LEXML"
  using route_after_grading_table [of "st0\<lparr>grade := Value ''relevant''\<rparr>"]
        route_after_grading_table [of "st0\<lparr>grade := Value ''irrelevant''\<rparr>"]
        route_after_grading_table [of "st0\<lparr>grade := Value ''needs_web_search''\<rparr>"]
        route_after_grading_table [of "st0\<lparr>grade := Null\<rparr>"]
        route_after_grading_table [of "st0\<lparr>grade := Value ''RELEVANCIA: ?''\<rparr>"]
  by (simp add: st0_def get_def)

subsection \<open>Grading with no documents\<close>

text \<open>
  Claim C3, as the code has it. When the grader agent was constructed and the retrieved
  documents are absent, \<open>None\<close> or the empty list, \<open>grade_documents\<close> returns the
  grade \<open>irrelevant\<close>, raises nothing and sends no prompt to the agent, whatever the
  agent would answer.
\<close>

theorem grade_documents_empty:
  "get (retrieved_docs s) = None \<or> get (retrieved_docs s) = Some [] \<Longrightarrow>
   grade_documents (Some agent) s = (''irrelevant'', [])"
  by (auto simp: grade_documents_def split: option.splits)

theorem grade_documents_empty_witness:
  "grade_documents (Some (\<lambda>p. Inr ''RELEVANCIA: relevant''))
     (st0\<lparr>query := Value q1, retrieved_docs := Value []\<rparr>) = (''irrelevant'', [])
   \<and> grade_documents (Some (\<lambda>p. Inr ''RELEVANCIA: relevant'')) st0 = (''irrelevant'', [])"
  using grade_documents_empty [of "st0\<lparr>query := Value q1, retrieved_docs := Value []\<rparr>"
          "\<lambda>p. Inr ''RELEVANCIA: relevant''"]
        grade_documents_empty [of st0 "\<lambda>p. Inr ''RELEVANCIA: relevant''"]
  by (simp add: st0_def get_def)

text \<open>
  Claim C3, as stated, fails when the grader agent is \<open>None\<close>: the state with a query
  and an empty list of documents is graded \<open>relevant\<close>.
\<close>

theorem grade_documents_no_agent_empty_docs:
  "grade_documents None (st0\<lparr>query := Value q1, retrieved_docs := Value []\<rparr>)
     = (''relevant'', [])"
  by (simp add: grade_documents_def)

subsection \<open>The summary of a final response\<close>

lemma varied_response_constructed: "FinalResponse_new varied_kwargs = Inr varied_response"
  by code_simp

lemma varied_summary_words: "length (split_ws (lower varied_summary)) = 23"
  by code_simp

lemma three_words_sentence:
  "kw_overall_summary three_words_kwargs = Some ''Contrato parece valido.''
   \<and> sentences ''Contrato parece valido.'' = [''Contrato parece valido'']
   \<and> word_count ''Contrato parece valido.'' = 3"
  by code_simp

text \<open>
  Claim C5, as the code has it. The summary of every final response that the
  constructor returns has at least two sentences (non-blank parts between full stops),
  between 100 and 15000 characters, at least 50 of them once stripped, and, when it
  has ten words or more, at least one distinct word for every four words. A call
  whose summary has fewer than two sentences raises; a single sentence of three words
  is such a summary.
\<close>

theorem FinalResponse_summary_invariant:
  "(FinalResponse_new kw = Inr r \<longrightarrow>
      2 \<le> length (sentences (overall_summary r))
    \<and> 100 \<le> length (overall_summary r) \<and> length (overall_summary r) \<le> 15000
    \<and> 50 \<le> length (strip (overall_summary r))
    \<and> (10 \<le> length (split_ws (lower (overall_summary r))) \<longrightarrow>
         1 / 4 \<le> (of_nat (card (set (split_ws (lower (overall_summary r))))) :: rat)
                   / of_nat (length (split_ws (lower (overall_summary r))))))
   \<and> (kw_overall_summary kw = Some v \<and> length (sentences v) < 2 \<longrightarrow>
        isl (FinalResponse_new kw))"
  by (auto simp: FinalResponse_new_def check_overall_summary_def validate_summary_quality_def
      Let_def split: option.splits if_splits sum.splits)

theorem FinalResponse_summary_invariant_witness:
  "FinalResponse_new varied_kwargs = Inr varied_response
   \<and> 2 \<le> length (sentences varied_summary)
   \<and> 100 \<le> length varied_summary \<and> length varied_summary \<le> 15000
   \<and> 50 \<le> length (strip varied_summary)
   \<and> 10 \<le> length (split_ws (lower varied_summary))
   \<and> 1 / 4 \<le> (of_nat (card (set (split_ws (lower varied_summary)))) :: rat)
                / of_nat (length (split_ws (lower varied_summary)))
   \<and> word_count ''Contrato parece valido.'' = 3
   \<and> length (sentences ''Contrato parece valido.'') < 2
   \<and> isl (FinalResponse_new three_words_kwargs)"
  using FinalResponse_summary_invariant [of varied_kwargs varied_response]
        FinalResponse_summary_invariant
          [of three_words_kwargs varied_response "''Contrato parece valido.''"]
        varied_response_constructed varied_summary_words three_words_sentence
  by (simp add: varied_response_def)

text \<open>
  Claim C5, as stated, fails for a summary of fewer than ten words, which the rule on
  repetition skips: the constructor accepts a summary that is one word nine times,
  with one distinct word for nine words.
\<close>

theorem repetitive_summary_accepted:
  "FinalResponse_new repetitive_kwargs = Inr repetitive_response
   \<and> overall_summary repetitive_response = repetitive_summary
   \<and> length (split_ws (lower repetitive_summary)) = 9
   \<and> card (set (split_ws (lower repetitive_summary))) = 1
   \<and> (of_nat (card (set (split_ws (lower repetitive_summary)))) :: rat)
        / of_nat (length (split_ws (lower repetitive_summary))) < 1 / 4"
  by code_simp

subsection \<open>Grading without a grader agent\<close>

text \<open>
  Claim C9. When the grader agent is \<open>None\<close>, \<open>grade_documents\<close> returns the grade
  \<open>relevant\<close> for every state, also one whose documents are empty or absent, and
  sends no prompt.
\<close>

theorem grade_documents_no_agent:
  "grade_documents None s = (''relevant'', [])"
  by (simp add: grade_documents_def)

subsection \<open>RetryableError\<close>

text \<open>
  Claim C10. \<open>can_retry\<close> holds exactly when the count of the retries is below the
  maximum, and the model is frozen: an assignment to any field of an instance, with
  any value, raises.
\<close>

theorem can_retry_frozen:
  "(can_retry e \<longleftrightarrow> retry_count e < max_retries e)
   \<and> isl (RetryableError_setattr e f v)"
  by (simp add: can_retry_def RetryableError_setattr_def)

end
